theory Spec2Isabelle
  imports Complex_Main "HOL-Library.Word"
begin

unbundle bit_operations_syntax

section \<open>JavaScript values used by the chat client\<close>

text \<open>
  A JavaScript string is a sequence of 16-bit code units; \<open>slice\<close>, \<open>trim\<close> and
  \<open>===\<close> all work on code units.  \<open>js\<close> writes an ASCII literal of the source
  as such a sequence.
\<close>

type_synonym jschar = "16 word"
type_synonym jsstring = "jschar list"

definition js :: "string \<Rightarrow> jsstring" where
  "js s = map (\<lambda>c. of_nat (of_char c)) s"

text \<open>
  A \<open>number\<close> is never used in arithmetic by the code below, only stored, compared
  with zero (truthiness) and serialized; its finite values are kept as rationals, each
  number as the decimal that is written for it.
\<close>

datatype number = Finite rat | NaN | PosInfinity | NegInfinity

text \<open>
  A \<open>Date\<close> object holds a time value in milliseconds since the epoch, or NaN
  (an invalid date).  \<open>new Date()\<close> reads the clock and is always valid;
  \<open>new Date(d)\<close> for a Date \<open>d\<close> copies its time value.
\<close>

datatype Date = ValidDate int | InvalidDate

definition Date_copy :: "Date \<Rightarrow> Date" where
  "Date_copy d = d"

subsection \<open>\<open>Number.prototype.toString\<close> on integers\<close>

definition digit_char :: "nat \<Rightarrow> jschar" where
  "digit_char d = of_nat (48 + d)"

fun nat_digits :: "nat \<Rightarrow> jsstring" where
  "nat_digits n = (if n < 10 then [digit_char n] else nat_digits (n div 10) @ [digit_char (n mod 10)])"

declare nat_digits.simps [simp del]

definition Number_toString :: "int \<Rightarrow> jsstring" where
  "Number_toString i = (if i < 0 then js ''-'' @ nat_digits (nat (- i)) else nat_digits (nat i))"

subsection \<open>\<open>Date.prototype.toISOString\<close>\<close>

text \<open>
  The calendar date of a day number (days since 1970-01-01, proleptic Gregorian
  calendar, as ECMAScript's \<open>YearFromTime\<close>, \<open>MonthFromTime\<close> and
  \<open>DateFromTime\<close> give it), computed era by era of 400 years.
\<close>

definition civil_from_days :: "int \<Rightarrow> int \<times> nat \<times> nat" where
  "civil_from_days day =
     (let z = day + 719468;
          era = z div 146097;
          doe = z mod 146097;
          yoe = (doe - doe div 1460 + doe div 36524 - doe div 146096) div 365;
          doy = doe - (365 * yoe + yoe div 4 - yoe div 100);
          mp = (5 * doy + 2) div 153;
          d = doy - (153 * mp + 2) div 5 + 1;
          m = (if mp < 10 then mp + 3 else mp - 9);
          y = yoe + era * 400 + (if m \<le> 2 then 1 else 0)
      in (y, nat m, nat d))"





definition pad :: "nat \<Rightarrow> nat \<Rightarrow> jsstring" where
  "pad w n = replicate (w - length (nat_digits n)) (digit_char 0) @ nat_digits n"

text \<open>
  \<open>toISOString\<close> of a valid time value: \<open>YYYY-MM-DDTHH:mm:ss.sssZ\<close>, with a
  signed six-digit year outside 0..9999.
\<close>

definition iso_year :: "int \<Rightarrow> jsstring" where
  "iso_year y = (if 0 \<le> y \<and> y \<le> 9999 then pad 4 (nat y)
                 else (if y < 0 then js ''-'' else js ''+'') @ pad 6 (nat \<bar>y\<bar>))"

definition iso_string :: "int \<Rightarrow> nat \<Rightarrow> nat \<Rightarrow> nat \<Rightarrow> jsstring" where
  "iso_string y m d ms =
     iso_year y @ js ''-'' @ pad 2 m @ js ''-'' @ pad 2 d @ js ''T'' @
     pad 2 (ms div 3600000) @ js '':'' @ pad 2 (ms div 60000 mod 60) @ js '':'' @
     pad 2 (ms div 1000 mod 60) @ js ''.'' @ pad 3 (ms mod 1000) @ js ''Z''"

definition Date_toISOString :: "int \<Rightarrow> jsstring" where
  "Date_toISOString tv =
     (case civil_from_days (tv div 86400000) of
        (y, m, d) \<Rightarrow> iso_string y m d (nat (tv mod 86400000)))"

subsection \<open>\<open>String.prototype.trim\<close>\<close>

text \<open>The code units of ECMAScript's WhiteSpace and LineTerminator.\<close>

definition is_js_space :: "jschar \<Rightarrow> bool" where
  "is_js_space c =
     (c \<in> set [0x9, 0xA, 0xB, 0xC, 0xD, 0x20, 0xA0, 0x1680, 0x2028, 0x2029, 0x202F,
                0x205F, 0x3000, 0xFEFF]
      \<or> (0x2000 \<le> c \<and> c \<le> 0x200A))"

definition trim :: "jsstring \<Rightarrow> jsstring" where
  "trim s = rev (dropWhile is_js_space (rev (dropWhile is_js_space s)))"

section \<open>JSON values and \<open>JSON.parse\<close>\<close>

text \<open>
  A JavaScript value as \<open>JSON.parse\<close> builds it, and as the reviver of the store
  rebuilds it with Date objects in it.  An object is the list of its properties; a
  repeated key overwrites the earlier value in place.  \<open>JDateOf v\<close> is the Date
  object that \<open>new Date(v)\<close> constructs where ECMAScript leaves the conversion of
  \<open>v\<close> to the engine (a string outside the date-time format, a value that is first
  converted to such a string).
\<close>

datatype jsval =
    JNull
  | JBool bool
  | JNum number
  | JStr jsstring
  | JArr "jsval list"
  | JObj "(jsstring \<times> jsval) list"
  | JDate Date
  | JDateOf jsval

fun obj_put :: "jsstring \<Rightarrow> jsval \<Rightarrow> (jsstring \<times> jsval) list \<Rightarrow> (jsstring \<times> jsval) list" where
  "obj_put k v [] = [(k, v)]"
| "obj_put k v ((k', v') # ps) = (if k' = k then (k, v) # ps else (k', v') # obj_put k v ps)"

subsection \<open>Tokens of a JSON text\<close>

datatype token =
    TLBrace | TRBrace | TLBracket | TRBracket | TColon | TComma
  | TString jsstring | TNumber rat | TTrue | TFalse | TNull

definition is_digit :: "jschar \<Rightarrow> bool" where
  "is_digit c = (0x30 \<le> c \<and> c \<le> 0x39)"

definition digit_val :: "jschar \<Rightarrow> nat" where
  "digit_val c = unat c - 48"

definition hex_val :: "jschar \<Rightarrow> nat option" where
  "hex_val c =
     (if 0x30 \<le> c \<and> c \<le> 0x39 then Some (unat c - 0x30)
      else if 0x41 \<le> c \<and> c \<le> 0x46 then Some (unat c - 0x41 + 10)
      else if 0x61 \<le> c \<and> c \<le> 0x66 then Some (unat c - 0x61 + 10)
      else None)"

definition hex4 :: "jschar \<Rightarrow> jschar \<Rightarrow> jschar \<Rightarrow> jschar \<Rightarrow> jschar option" where
  "hex4 a b c d =
     (case (hex_val a, hex_val b, hex_val c, hex_val d) of
        (Some x, Some y, Some z, Some w) \<Rightarrow> Some (of_nat (((x * 16 + y) * 16 + z) * 16 + w))
      | _ \<Rightarrow> None)"

definition unescape :: "jschar \<Rightarrow> jschar option" where
  "unescape e =
     (if e = 0x22 \<or> e = 0x5C \<or> e = 0x2F then Some e
      else if e = 0x62 then Some 0x8
      else if e = 0x66 then Some 0xC
      else if e = 0x6E then Some 0xA
      else if e = 0x72 then Some 0xD
      else if e = 0x74 then Some 0x9
      else None)"

fun lex_string :: "jsstring \<Rightarrow> jsstring \<Rightarrow> (jsstring \<times> jsstring) option" where
  "lex_string acc [] = None"
| "lex_string acc (c # cs) =
     (if c = 0x22 then Some (rev acc, cs)
      else if c = 0x5C then
        (case cs of
           [] \<Rightarrow> None
         | e # cs' \<Rightarrow>
             if e = 0x75 then
               (case cs' of
                  h1 # h2 # h3 # h4 # cs'' \<Rightarrow>
                    (case hex4 h1 h2 h3 h4 of
                       None \<Rightarrow> None
                     | Some u \<Rightarrow> lex_string (u # acc) cs'')
                | _ \<Rightarrow> None)
             else
               (case unescape e of
                  None \<Rightarrow> None
                | Some u \<Rightarrow> lex_string (u # acc) cs'))
      else if c < 0x20 then None
      else lex_string (c # acc) cs)"

definition digits_val :: "jsstring \<Rightarrow> nat" where
  "digits_val ds = foldl (\<lambda>n d. 10 * n + digit_val d) 0 ds"

text \<open>The exponent part: \<open>e\<close> or \<open>E\<close>, an optional sign, digits.\<close>

definition lex_exponent :: "jsstring \<Rightarrow> (int \<times> jsstring) option" where
  "lex_exponent cs =
     (case cs of
        e # cs1 \<Rightarrow>
          if e = 0x65 \<or> e = 0x45 then
            (let (neg, cs2) = (case cs1 of s # r \<Rightarrow> if s = 0x2D then (True, r)
                                                     else if s = 0x2B then (False, r)
                                                     else (False, cs1)
                               | [] \<Rightarrow> (False, cs1));
                 ds = takeWhile is_digit cs2
             in if ds = [] then None
                else Some ((if neg then - int (digits_val ds) else int (digits_val ds)),
                           dropWhile is_digit cs2))
          else Some (0, cs)
      | [] \<Rightarrow> Some (0, cs))"

definition lex_fraction :: "jsstring \<Rightarrow> (jsstring \<times> jsstring) option" where
  "lex_fraction cs =
     (case cs of
        p # cs1 \<Rightarrow>
          if p = 0x2E then
            (let ds = takeWhile is_digit cs1
             in if ds = [] then None else Some (ds, dropWhile is_digit cs1))
          else Some ([], cs)
      | [] \<Rightarrow> Some ([], cs))"

definition pow10 :: "int \<Rightarrow> rat" where
  "pow10 e = (if 0 \<le> e then of_nat (10 ^ nat e) else 1 / of_nat (10 ^ nat (- e)))"

text \<open>
  The integer part is a single zero or starts with a non-zero digit; the value is kept as
  the exact rational the literal denotes.
\<close>

definition lex_unsigned :: "jsstring \<Rightarrow> (rat \<times> jsstring) option" where
  "lex_unsigned cs =
     (let ds = takeWhile is_digit cs; cs1 = dropWhile is_digit cs;
          (ip, rest) = (if ds \<noteq> [] \<and> hd ds = 0x30 then ([0x30], tl ds @ cs1) else (ds, cs1))
      in if ip = [] then None
         else (case lex_fraction rest of
                 None \<Rightarrow> None
               | Some (fs, cs2) \<Rightarrow>
                   (case lex_exponent cs2 of
                      None \<Rightarrow> None
                    | Some (e, cs3) \<Rightarrow>
                        Some (of_nat (digits_val (ip @ fs)) * pow10 (e - int (length fs)), cs3))))"

definition lex_number :: "jsstring \<Rightarrow> (rat \<times> jsstring) option" where
  "lex_number cs =
     (case cs of
        [] \<Rightarrow> None
      | c # cs1 \<Rightarrow>
          if c = 0x2D then map_option (\<lambda>(q, r). (- q, r)) (lex_unsigned cs1)
          else lex_unsigned cs)"


definition is_json_ws :: "jschar \<Rightarrow> bool" where
  "is_json_ws c = (c = 0x20 \<or> c = 0x9 \<or> c = 0xA \<or> c = 0xD)"

text \<open>One token from the front of a non-empty text, with the rest of the text.\<close>

definition lex_token :: "jschar \<Rightarrow> jsstring \<Rightarrow> (token \<times> jsstring) option" where
  "lex_token c cs =
     (if c = 0x7B then Some (TLBrace, cs)
      else if c = 0x7D then Some (TRBrace, cs)
      else if c = 0x5B then Some (TLBracket, cs)
      else if c = 0x5D then Some (TRBracket, cs)
      else if c = 0x3A then Some (TColon, cs)
      else if c = 0x2C then Some (TComma, cs)
      else if c = 0x22 then map_option (\<lambda>(s, r). (TString s, r)) (lex_string [] cs)
      else if c = 0x2D \<or> is_digit c then map_option (\<lambda>(q, r). (TNumber q, r)) (lex_number (c # cs))
      else if take 4 (c # cs) = js ''true'' then Some (TTrue, drop 3 cs)
      else if take 5 (c # cs) = js ''false'' then Some (TFalse, drop 4 cs)
      else if take 4 (c # cs) = js ''null'' then Some (TNull, drop 3 cs)
      else None)"

lemma lex_string_length: "lex_string acc cs = Some (s, r) \<Longrightarrow> length r < Suc (length cs)"
proof (induction acc cs rule: lex_string.induct)
  case (1 acc)
  then show ?case by simp
next
  case (2 acc c cs)
  show ?case
  proof (cases "c = 0x22")
    case True
    with 2 show ?thesis by simp
  next
    case nq: False
    show ?thesis
    proof (cases "c = 0x5C")
      case False
      with nq 2 show ?thesis by (auto split: if_splits)
    next
      case bs: True
      show ?thesis
      proof (cases cs)
        case Nil
        with bs nq 2 show ?thesis by simp
      next
        case (Cons e cs')
        show ?thesis
        proof (cases "e = 0x75")
          case False
          with Cons bs nq 2 show ?thesis by (fastforce split: option.splits)
        next
          case u: True
          with Cons bs nq 2 show ?thesis
            by (fastforce split: option.splits list.splits)
        qed
      qed
    qed
  qed
qed

lemma lex_exponent_length: "lex_exponent cs = Some (e, r) \<Longrightarrow> length r \<le> length cs"
  by (auto simp: lex_exponent_def Let_def split: list.splits if_splits
           intro: le_trans [OF length_dropWhile_le] le_SucI)

lemma lex_fraction_length: "lex_fraction cs = Some (fs, r) \<Longrightarrow> length r \<le> length cs"
  by (auto simp: lex_fraction_def Let_def split: list.splits if_splits
           intro: le_trans [OF length_dropWhile_le] le_SucI)

lemma lex_unsigned_length:
  assumes "lex_unsigned cs = Some (q, r)"
  shows "length r < length cs"
proof -
  define ds where "ds = takeWhile is_digit cs"
  define cs1 where "cs1 = dropWhile is_digit cs"
  have cs: "cs = ds @ cs1" by (simp add: ds_def cs1_def)
  have ne: "ds \<noteq> []"
    using assms by (auto simp: lex_unsigned_def Let_def ds_def split: if_splits)
  define rest where "rest = (if hd ds = 0x30 then tl ds @ cs1 else cs1)"
  have rest: "length rest < length cs"
    using ne by (cases ds) (auto simp: rest_def cs)
  obtain fs cs2 e where f: "lex_fraction rest = Some (fs, cs2)" and x: "lex_exponent cs2 = Some (e, r)"
    using assms ne
    by (auto simp: lex_unsigned_def Let_def ds_def [symmetric] cs1_def [symmetric] rest_def
             split: if_splits option.splits)
  show ?thesis
    using lex_fraction_length [OF f] lex_exponent_length [OF x] rest by simp
qed

lemma lex_number_length: "lex_number cs = Some (q, r) \<Longrightarrow> length r < length cs"
  by (cases cs) (auto simp: lex_number_def split: if_splits dest!: lex_unsigned_length)

lemma lex_token_length: "lex_token c cs = Some (t, r) \<Longrightarrow> length r < Suc (length cs)"
  by (auto simp: lex_token_def split: if_splits dest!: lex_string_length lex_number_length)

function lexer :: "jsstring \<Rightarrow> token list option" where
  "lexer [] = Some []"
| "lexer (c # cs) =
     (if is_json_ws c then lexer cs
      else (case lex_token c cs of
              None \<Rightarrow> None
            | Some (t, r) \<Rightarrow> map_option ((#) t) (lexer r)))"
  by pat_completeness auto
termination
  by (relation "measure length") (auto dest: lex_token_length)

subsection \<open>The grammar, on tokens\<close>

datatype frame = FArr "jsval list" | FObj "(jsstring \<times> jsval) list" "jsstring option"

datatype mode = MValue | MArrStart | MObjStart | MKey | MColon | MAfter | MDone

type_synonym pstate = "mode \<times> frame list \<times> jsval option"

text \<open>A complete value goes into the innermost open array or object, or is the result.\<close>

fun attach :: "jsval \<Rightarrow> frame list \<Rightarrow> pstate option" where
  "attach v [] = Some (MDone, [], Some v)"
| "attach v (FArr es # st) = Some (MAfter, FArr (v # es) # st, None)"
| "attach v (FObj ms (Some k) # st) = Some (MAfter, FObj (obj_put k v ms) None # st, None)"
| "attach v (FObj ms None # st) = None"

definition wants_value :: "mode \<Rightarrow> bool" where
  "wants_value m = (m = MValue \<or> m = MArrStart)"

fun step :: "pstate \<Rightarrow> token \<Rightarrow> pstate option" where
  "step (m, st, res) TLBracket = (if wants_value m then Some (MArrStart, FArr [] # st, None) else None)"
| "step (m, st, res) TLBrace = (if wants_value m then Some (MObjStart, FObj [] None # st, None) else None)"
| "step (m, st, res) TRBracket =
     (case st of
        FArr es # st' \<Rightarrow> if m = MArrStart \<or> m = MAfter then attach (JArr (rev es)) st' else None
      | _ \<Rightarrow> None)"
| "step (m, st, res) TRBrace =
     (case st of
        FObj ms None # st' \<Rightarrow> if m = MObjStart \<or> m = MAfter then attach (JObj ms) st' else None
      | _ \<Rightarrow> None)"
| "step (m, st, res) TComma =
     (if m = MAfter then
        (case st of
           FArr es # st' \<Rightarrow> Some (MValue, st, None)
         | FObj ms None # st' \<Rightarrow> Some (MKey, st, None)
         | _ \<Rightarrow> None)
      else None)"
| "step (m, st, res) TColon = (if m = MColon then Some (MValue, st, None) else None)"
| "step (m, st, res) (TString s) =
     (if wants_value m then attach (JStr s) st
      else if m = MObjStart \<or> m = MKey then
        (case st of
           FObj ms None # st' \<Rightarrow> Some (MColon, FObj ms (Some s) # st', None)
         | _ \<Rightarrow> None)
      else None)"
| "step (m, st, res) (TNumber q) = (if wants_value m then attach (JNum (Finite q)) st else None)"
| "step (m, st, res) TTrue = (if wants_value m then attach (JBool True) st else None)"
| "step (m, st, res) TFalse = (if wants_value m then attach (JBool False) st else None)"
| "step (m, st, res) TNull = (if wants_value m then attach JNull st else None)"

fun run :: "pstate \<Rightarrow> token list \<Rightarrow> pstate option" where
  "run p [] = Some p"
| "run p (t # ts) = (case step p t of None \<Rightarrow> None | Some p' \<Rightarrow> run p' ts)"

text \<open>\<open>JSON.parse(text)\<close>: \<open>None\<close> is the SyntaxError.\<close>

definition JSON_parse :: "jsstring \<Rightarrow> jsval option" where
  "JSON_parse text =
     (case lexer text of
        None \<Rightarrow> None
      | Some ts \<Rightarrow>
          (case run (MValue, [], None) ts of
             Some (MDone, [], Some v) \<Rightarrow> Some v
           | _ \<Rightarrow> None))"

subsection \<open>\<open>new Date(value)\<close>\<close>

definition is_leap :: "int \<Rightarrow> bool" where
  "is_leap y = (y mod 4 = 0 \<and> (y mod 100 \<noteq> 0 \<or> y mod 400 = 0))"

definition days_in_month :: "int \<Rightarrow> nat \<Rightarrow> nat" where
  "days_in_month y m =
     (if m = 2 then (if is_leap y then 29 else 28)
      else if m = 4 \<or> m = 6 \<or> m = 9 \<or> m = 11 then 30 else 31)"

text \<open>The day number of a calendar date (ECMAScript's \<open>MakeDay\<close>).\<close>

definition days_from_civil :: "int \<Rightarrow> nat \<Rightarrow> nat \<Rightarrow> int" where
  "days_from_civil y m d =
     (let y' = (if m \<le> 2 then y - 1 else y);
          era = y' div 400;
          yoe = y' mod 400;
          mp = (if m > 2 then int m - 3 else int m + 9);
          doy = (153 * mp + 2) div 5 + int d - 1;
          doe = yoe * 365 + yoe div 4 - yoe div 100 + doy
      in era * 146097 + doe - 719468)"

definition TimeClip :: "int \<Rightarrow> Date" where
  "TimeClip t = (if \<bar>t\<bar> \<le> 8640000000000000 then ValidDate t else InvalidDate)"

text \<open>A field of \<open>len\<close> decimal digits at position \<open>pos\<close>.\<close>

definition field :: "nat \<Rightarrow> nat \<Rightarrow> jsstring \<Rightarrow> nat option" where
  "field pos len s =
     (let f = take len (drop pos s)
      in if length f = len \<and> list_all is_digit f then Some (digits_val f) else None)"

text \<open>
  The part after the year, \<open>-MM-DDTHH:mm:ss.sssZ\<close>, with every element in bounds;
  \<open>24:00:00.000\<close> is the end of the day.
\<close>

definition parse_iso_rest :: "int \<Rightarrow> jsstring \<Rightarrow> Date option" where
  "parse_iso_rest y s =
     (if length s = 20 \<and> s ! 0 = 0x2D \<and> s ! 3 = 0x2D \<and> s ! 6 = 0x54 \<and> s ! 9 = 0x3A
         \<and> s ! 12 = 0x3A \<and> s ! 15 = 0x2E \<and> s ! 19 = 0x5A then
        (case (field 1 2 s, field 4 2 s, field 7 2 s, field 10 2 s, field 13 2 s, field 16 3 s) of
           (Some m, Some d, Some hh, Some mi, Some ss, Some ms) \<Rightarrow>
             if 1 \<le> m \<and> m \<le> 12 \<and> 1 \<le> d \<and> d \<le> days_in_month y m \<and> mi \<le> 59 \<and> ss \<le> 59
                \<and> (hh \<le> 23 \<or> (hh = 24 \<and> mi = 0 \<and> ss = 0 \<and> ms = 0))
             then Some (TimeClip (days_from_civil y m d * 86400000
                                  + int (hh * 3600000 + mi * 60000 + ss * 1000 + ms)))
             else None
         | _ \<Rightarrow> None)
      else None)"

text \<open>
  \<open>Date.parse\<close> on the complete UTC form of the date-time string format,
  \<open>YYYY-MM-DDTHH:mm:ss.sssZ\<close> or with an expanded year \<open>\<plusminus>YYYYYY\<close> (where
  \<open>-000000\<close> is not a year); \<open>None\<close> for every other string.
\<close>

definition Date_parse_iso :: "jsstring \<Rightarrow> Date option" where
  "Date_parse_iso s =
     (case s of
        [] \<Rightarrow> None
      | c # r \<Rightarrow>
          if c = 0x2B \<or> c = 0x2D then
            (case field 0 6 r of
               None \<Rightarrow> None
             | Some y \<Rightarrow>
                 if c = 0x2D \<and> y = 0 then None
                 else parse_iso_rest (if c = 0x2D then - int y else int y) (drop 6 r))
          else
            (case field 0 4 s of
               None \<Rightarrow> None
             | Some y \<Rightarrow> parse_iso_rest (int y) (drop 4 s)))"

text \<open>A number as a time value: clipped to the range of dates, truncated towards zero.\<close>

definition TimeClip_number :: "number \<Rightarrow> Date" where
  "TimeClip_number n =
     (case n of
        Finite q \<Rightarrow> if \<bar>q\<bar> \<le> 8640000000000000
                    then ValidDate (if 0 \<le> q then \<lfloor>q\<rfloor> else - \<lfloor>- q\<rfloor>) else InvalidDate
      | _ \<Rightarrow> InvalidDate)"

fun new_Date :: "jsval \<Rightarrow> jsval" where
  "new_Date (JDate d) = JDate d"
| "new_Date (JDateOf v) = JDateOf v"
| "new_Date (JStr s) = (case Date_parse_iso s of Some d \<Rightarrow> JDate d | None \<Rightarrow> JDateOf (JStr s))"
| "new_Date JNull = JDate (ValidDate 0)"
| "new_Date (JBool b) = JDate (ValidDate (if b then 1 else 0))"
| "new_Date (JNum n) = JDate (TimeClip_number n)"
| "new_Date (JArr xs) = JDateOf (JArr xs)"
| "new_Date (JObj ps) = JDateOf (JObj ps)"

subsection \<open>The reviver of the store and \<open>JSON.parse(text, reviver)\<close>\<close>

definition reviver :: "jsstring \<Rightarrow> jsval \<Rightarrow> jsval" where
  "reviver key value =
     (if key = js ''timestamp'' \<or> key = js ''lastUpdated'' then new_Date value else value)"

text \<open>
  The walk of \<open>JSON.parse\<close> with a reviver: the elements of an array and the
  properties of an object are rebuilt first, then the reviver is called on each with its
  index or key.
\<close>

primrec internalize :: "jsval \<Rightarrow> jsval" where
  "internalize JNull = JNull"
| "internalize (JBool b) = JBool b"
| "internalize (JNum n) = JNum n"
| "internalize (JStr s) = JStr s"
| "internalize (JDate d) = JDate d"
| "internalize (JDateOf v) = JDateOf v"
| "internalize (JArr xs) =
     JArr (map (\<lambda>(i, x). reviver (Number_toString (int i)) x) (enumerate 0 (map internalize xs)))"
| "internalize (JObj ps) =
     JObj (map (\<lambda>(k, x). (k, reviver k x)) (map (map_prod id internalize) ps))"

datatype parse_error = SyntaxError

definition JSON_parse_reviver :: "jsstring \<Rightarrow> parse_error + jsval" where
  "JSON_parse_reviver text =
     (case JSON_parse text of
        None \<Rightarrow> Inl SyntaxError
      | Some v \<Rightarrow> Inr (reviver [] (internalize v)))"

section \<open>\<open>JSON.stringify\<close>\<close>

subsection \<open>The value that is written\<close>


subsection \<open>\<open>Number::toString\<close>\<close>

text \<open>
  A finite number is held as the decimal that \<open>Number::toString\<close> writes for it, the
  shortest one that reads back as the number: \<open>s \<times> 10\<^sup>e\<close> with \<open>s\<close> not
  divisible by ten.  \<open>decimal_of\<close> gives \<open>s\<close> and \<open>e\<close> for a positive rational
  that is a decimal (its denominator has no prime factor but 2 and 5), and \<open>None\<close>
  for the others, which are no numbers of the program.  \<open>strip_zeros\<close> takes the
  trailing zeros of \<open>s\<close> into the exponent, and \<open>factor_count p n\<close> is the number
  of times \<open>p\<close> divides \<open>n\<close>.
\<close>

function strip_zeros :: "nat \<Rightarrow> int \<Rightarrow> nat \<times> int" where
  "strip_zeros s e = (if s \<noteq> 0 \<and> s mod 10 = 0 then strip_zeros (s div 10) (e + 1) else (s, e))"
  by pat_completeness auto
termination
  by (relation "measure fst") auto

declare strip_zeros.simps [simp del]

function factor_count :: "nat \<Rightarrow> nat \<Rightarrow> nat" where
  "factor_count p n = (if 1 < p \<and> 0 < n \<and> n mod p = 0 then Suc (factor_count p (n div p)) else 0)"
  by pat_completeness auto
termination
  by (relation "measure snd") auto

declare factor_count.simps [simp del]

definition decimal_of :: "rat \<Rightarrow> (nat \<times> int) option" where
  "decimal_of q =
     (case quotient_of q of
        (a, b) \<Rightarrow>
          let x = factor_count 2 (nat b); y = factor_count 5 (nat b); j = max x y
          in if b = 2 ^ x * 5 ^ y then Some (strip_zeros (nat (a * 10 ^ j div b)) (- int j))
             else None)"

text \<open>
  The digits \<open>ds\<close> of \<open>s\<close> (there are \<open>k\<close> of them) with the decimal point after
  the first \<open>n\<close> of them, as ECMAScript lays them out: plain digits followed by zeros
  for \<open>k \<le> n \<le> 21\<close>, a point inside the digits for \<open>0 < n \<le> 21\<close>, \<open>0.\<close> and
  zeros before the digits for \<open>-6 < n \<le> 0\<close>, and otherwise the exponent form with
  \<open>e+\<close> or \<open>e-\<close>.
\<close>

definition format_digits :: "jsstring \<Rightarrow> int \<Rightarrow> jsstring" where
  "format_digits ds n =
     (let k = int (length ds)
      in if k \<le> n \<and> n \<le> 21 then ds @ replicate (nat (n - k)) 0x30
         else if 0 < n \<and> n \<le> 21 then take (nat n) ds @ 0x2E # drop (nat n) ds
         else if - 6 < n \<and> n \<le> 0 then 0x30 # 0x2E # replicate (nat (- n)) 0x30 @ ds
         else (if k = 1 then ds else take 1 ds @ 0x2E # drop 1 ds)
              @ 0x65 # (if 0 \<le> n - 1 then 0x2B else 0x2D) # nat_digits (nat \<bar>n - 1\<bar>))"

definition Number_format :: "nat \<Rightarrow> int \<Rightarrow> jsstring" where
  "Number_format s e = format_digits (nat_digits s) (int (length (nat_digits s)) + e)"

text \<open>\<open>None\<close> for a rational that is not a decimal.\<close>

definition Number_toString_rat :: "rat \<Rightarrow> jsstring option" where
  "Number_toString_rat q =
     (if q = 0 then Some (js ''0'')
      else (case decimal_of \<bar>q\<bar> of
              None \<Rightarrow> None
            | Some (s, e) \<Rightarrow> Some ((if q < 0 then js ''-'' else []) @ Number_format s e)))"

subsection \<open>\<open>QuoteJSONString\<close>\<close>

text \<open>
  A string is written between double quotes, code point by code point: the quote, the
  backslash and the control characters with a short form are escaped with a backslash,
  the other control characters and every surrogate that is not half of a pair as a
  backslash, \<open>u\<close> and four lower-case hexadecimal digits, and everything else as it
  is.
\<close>

definition hex_digit :: "nat \<Rightarrow> jschar" where
  "hex_digit n = (if n < 10 then of_nat (48 + n) else of_nat (87 + n))"

definition unicode_escape :: "jschar \<Rightarrow> jsstring" where
  "unicode_escape c =
     [0x5C, 0x75, hex_digit (unat c div 4096), hex_digit (unat c div 256 mod 16),
      hex_digit (unat c div 16 mod 16), hex_digit (unat c mod 16)]"

definition is_lead :: "jschar \<Rightarrow> bool" where
  "is_lead c = (0xD800 \<le> c \<and> c \<le> 0xDBFF)"

definition is_trail :: "jschar \<Rightarrow> bool" where
  "is_trail c = (0xDC00 \<le> c \<and> c \<le> 0xDFFF)"

definition quote_unit :: "jschar \<Rightarrow> jsstring" where
  "quote_unit c =
     (if c = 0x8 then [0x5C, 0x62]
      else if c = 0x9 then [0x5C, 0x74]
      else if c = 0xA then [0x5C, 0x6E]
      else if c = 0xC then [0x5C, 0x66]
      else if c = 0xD then [0x5C, 0x72]
      else if c = 0x22 then [0x5C, 0x22]
      else if c = 0x5C then [0x5C, 0x5C]
      else if c < 0x20 \<or> is_lead c \<or> is_trail c then unicode_escape c
      else [c])"

fun quote_units :: "jsstring \<Rightarrow> jsstring" where
  "quote_units [] = []"
| "quote_units [c] = quote_unit c"
| "quote_units (c # d # cs) =
     (if is_lead c \<and> is_trail d then c # d # quote_units cs
      else quote_unit c @ quote_units (d # cs))"

definition QuoteJSONString :: "jsstring \<Rightarrow> jsstring" where
  "QuoteJSONString s = 0x22 # quote_units s @ [0x22]"

subsection \<open>The text that is written\<close>




section \<open>The data model (\<open>types\<close>)\<close>

datatype role = User | Assistant

record Message =
  m_id :: jsstring
  m_role :: role
  m_content :: jsstring
  m_intent :: "jsstring option"
  m_confidence :: "number option"
  m_sources :: "jsstring list option"
  m_timestamp :: Date

record ChatHistory =
  c_id :: jsstring
  c_title :: jsstring
  c_messages :: "Message list"
  c_lastUpdated :: Date

section \<open>The session store (\<open>useChat\<close>)\<close>

text \<open>
  The three pieces of React state of the hook.  \<open>currentChatId\<close> is
  \<open>string | null\<close>; \<open>None\<close> is \<open>null\<close>.
\<close>

record chat_state =
  chatHistories :: "ChatHistory list"
  currentChatId :: "jsstring option"
  messages :: "Message list"

text \<open>
  The initial value of \<open>chatHistories\<close>, from what \<open>localStorage.getItem\<close>
  returns (\<open>None\<close> is \<open>null\<close>): \<open>stored ? JSON.parse(stored, reviver) : []\<close>.
  An exception of the initializer is an exception of the first render.
\<close>

definition useChat_initial :: "jsstring option \<Rightarrow> parse_error + jsval" where
  "useChat_initial stored =
     (case stored of
        None \<Rightarrow> Inr (JArr [])
      | Some text \<Rightarrow> if text = [] then Inr (JArr []) else JSON_parse_reviver text)"















text \<open>
  Every callback of the hook is a closure of one render: a plain read of
  \<open>messages\<close>, \<open>currentChatId\<close> or \<open>chatHistories\<close> sees the state of that
  render (the argument \<open>cap\<close>, the captured state), while a setter called with a
  function (\<open>prev => ...\<close>) transforms the state at the time of the update (the
  argument \<open>s\<close>).  A callback invoked by a user event belongs to the latest render, so
  there \<open>cap = s\<close>; the continuation of \<open>sendMessage\<close> after its \<open>await\<close> still
  holds the callbacks of the render that started it.
\<close>

definition startNewChat :: "'a chat_state_scheme \<Rightarrow> 'a chat_state_scheme" where
  "startNewChat s = s\<lparr>messages := [], currentChatId := None\<rparr>"

definition loadChat ::
  "'b chat_state_scheme \<Rightarrow> jsstring \<Rightarrow> 'a chat_state_scheme \<Rightarrow> 'a chat_state_scheme" where
  "loadChat cap chatId s =
     (case find (\<lambda>c. c_id c = chatId) (chatHistories cap) of
        Some chat \<Rightarrow>
          s\<lparr>messages := map (\<lambda>msg. msg\<lparr>m_timestamp := Date_copy (m_timestamp msg)\<rparr>) (c_messages chat),
            currentChatId := Some chatId\<rparr>
      | None \<Rightarrow> s)"

definition deleteChat ::
  "'b chat_state_scheme \<Rightarrow> jsstring \<Rightarrow> 'a chat_state_scheme \<Rightarrow> 'a chat_state_scheme" where
  "deleteChat cap chatId s =
     (let s1 = s\<lparr>chatHistories := filter (\<lambda>chat. c_id chat \<noteq> chatId) (chatHistories s)\<rparr>
      in if currentChatId cap = Some chatId then startNewChat s1 else s1)"

definition clearHistory :: "'a chat_state_scheme \<Rightarrow> 'a chat_state_scheme" where
  "clearHistory s = s\<lparr>chatHistories := [], messages := [], currentChatId := None\<rparr>"

definition addMessage :: "Message \<Rightarrow> 'a chat_state_scheme \<Rightarrow> 'a chat_state_scheme" where
  "addMessage message s = s\<lparr>messages := messages s @ [message]\<rparr>"

text \<open>
  \<open>if (currentChatId)\<close> tests truthiness: \<open>null\<close> and the empty string both take
  the \<open>else\<close> branch.  \<open>t_id\<close> is the reading of \<open>Date.now()\<close> and \<open>t_upd\<close> the
  reading of \<open>new Date()\<close>.
\<close>

definition truthy_id :: "jsstring option \<Rightarrow> bool" where
  "truthy_id v = (case v of None \<Rightarrow> False | Some x \<Rightarrow> x \<noteq> [])"

definition updateChatHistory ::
  "'b chat_state_scheme \<Rightarrow> int \<Rightarrow> int \<Rightarrow> Message \<Rightarrow> Message \<Rightarrow>
   'a chat_state_scheme \<Rightarrow> 'a chat_state_scheme" where
  "updateChatHistory cap t_id t_upd userMessage assistantMessage s =
     (let newMessages = messages cap @ [userMessage, assistantMessage] in
      if truthy_id (currentChatId cap) then
        s\<lparr>chatHistories :=
            map (\<lambda>chat. if Some (c_id chat) = currentChatId cap
                        then chat\<lparr>c_messages := newMessages, c_lastUpdated := ValidDate t_upd\<rparr>
                        else chat)
                (chatHistories s)\<rparr>
      else
        let newChat = \<lparr>c_id = Number_toString t_id,
                       c_title = take 50 (m_content userMessage),
                       c_messages = newMessages,
                       c_lastUpdated = ValidDate t_upd\<rparr>
        in s\<lparr>chatHistories := newChat # chatHistories s,
             currentChatId := Some (c_id newChat)\<rparr>)"

text \<open>
  The states the store can be in when its operations are invoked one after the other,
  each on the state the previous one left.  The histories it starts from are whatever
  the durable store held.  The operations that user events invoke are callbacks of the
  latest render; \<open>updateChatHistory\<close> is invoked by the continuation of
  \<open>sendMessage\<close> and may be the callback of any earlier render.  The hook also
  hands out \<open>setMessages\<close>, which replaces the buffer.
\<close>

inductive reachable :: "chat_state \<Rightarrow> bool" where
  r_init: "reachable \<lparr>chatHistories = hs, currentChatId = None, messages = []\<rparr>"
| r_startNewChat: "reachable s \<Longrightarrow> reachable (startNewChat s)"
| r_loadChat: "reachable s \<Longrightarrow> reachable (loadChat s chatId s)"
| r_deleteChat: "reachable s \<Longrightarrow> reachable (deleteChat s chatId s)"
| r_clearHistory: "reachable s \<Longrightarrow> reachable (clearHistory s)"
| r_addMessage: "reachable s \<Longrightarrow> reachable (addMessage message s)"
| r_updateChatHistory:
    "reachable s \<Longrightarrow> reachable (updateChatHistory (cap :: chat_state) t_id t_upd u a s)"
| r_setMessages: "reachable s \<Longrightarrow> reachable (s\<lparr>messages := ms\<rparr>)"

section \<open>The query client (\<open>sendQueryToAPI\<close>)\<close>

record request =
  url :: jsstring
  user_id :: jsstring
  query :: jsstring

text \<open>
  The fields the client reads from a JSON object body; \<open>None\<close> is an absent field
  (for \<open>action_invoked\<close>, absent or \<open>null\<close>).  The fields of a successful
  response are at the types of the endpoint's interface; \<open>detail\<close>, which a server
  also sends as a list of objects, is any JSON value.
\<close>

record response_body =
  b_detail :: "jsval option"
  b_intent :: "jsstring option"
  b_confidence :: "number option"
  b_response :: "jsstring option"
  b_sources :: "jsstring list option"
  b_action_invoked :: "jsstring option"
  b_timestamp :: "jsstring option"

text \<open>
  The value that \<open>response.json()\<close> resolves to: \<open>null\<close>, an object, or another
  JSON value (a boolean, a number, a string or an array), which has none of the
  properties that the client reads.
\<close>

datatype body = NullBody | ObjectBody response_body | OtherBody

text \<open>
  What \<open>fetch\<close> does with a request: it rejects (a network failure), or it resolves to
  a response with a status whose \<open>json()\<close> either rejects (\<open>None\<close>: the body is
  not JSON) or resolves to the body.
\<close>

datatype fetch_result =
    Rejected jsstring
  | Response int "body option"

text \<open>
  What \<open>sendQueryToAPI\<close> throws: the \<open>Error\<close> it constructs itself, the
  TypeError of reading a property of \<open>null\<close> or of a string conversion that fails,
  the rejection of \<open>fetch\<close>, or the rejection of \<open>response.json()\<close> on the success
  path; the \<open>catch\<close> block logs and rethrows each of them.  \<open>ErrorOf v\<close> is the
  \<open>Error\<close> whose message is the string of \<open>v\<close> where the model gives none.
\<close>

datatype error =
    Error jsstring
  | ErrorOf jsval
  | TypeError
  | FetchError jsstring
  | BodySyntaxError

text \<open>\<open>ToBoolean\<close>: the test of \<open>||\<close> on any value.\<close>

definition truthy :: "jsval \<Rightarrow> bool" where
  "truthy v =
     (case v of
        JNull \<Rightarrow> False
      | JBool b \<Rightarrow> b
      | JNum n \<Rightarrow> n \<noteq> Finite 0 \<and> n \<noteq> NaN
      | JStr s \<Rightarrow> s \<noteq> []
      | _ \<Rightarrow> True)"

text \<open>
  \<open>ToString\<close>, which \<open>new Error(message)\<close> applies to its argument.  An array
  is the strings of its elements joined with commas, \<open>null\<close> elements as the empty
  string.  An object of a JSON body is \<open>[object Object]\<close>, unless it has a property
  \<open>toString\<close> of its own: that is no function, and the conversion throws a TypeError.
  The conversion of a Date depends on the engine and the time zone; the model gives no
  string for it, nor for a rational that is no number of the program.
\<close>

datatype conversion = Converted jsstring | ThrowsTypeError | Unmodelled

definition join2 :: "conversion \<Rightarrow> conversion \<Rightarrow> conversion" where
  "join2 a b =
     (case (a, b) of
        (ThrowsTypeError, _) \<Rightarrow> ThrowsTypeError
      | (_, ThrowsTypeError) \<Rightarrow> ThrowsTypeError
      | (Converted x, Converted y) \<Rightarrow> Converted (x @ 0x2C # y)
      | _ \<Rightarrow> Unmodelled)"

fun join :: "conversion list \<Rightarrow> conversion" where
  "join [] = Converted []"
| "join [r] = r"
| "join (r # rs) = join2 r (join rs)"

primrec ToString :: "jsval \<Rightarrow> conversion" where
  "ToString JNull = Converted (js ''null'')"
| "ToString (JBool b) = Converted (if b then js ''true'' else js ''false'')"
| "ToString (JNum n) =
     (case n of
        Finite q \<Rightarrow> (case Number_toString_rat q of Some s \<Rightarrow> Converted s | None \<Rightarrow> Unmodelled)
      | NaN \<Rightarrow> Converted (js ''NaN'')
      | PosInfinity \<Rightarrow> Converted (js ''Infinity'')
      | NegInfinity \<Rightarrow> Converted (js ''-Infinity''))"
| "ToString (JStr s) = Converted s"
| "ToString (JDate d) = Unmodelled"
| "ToString (JDateOf v) = Unmodelled"
| "ToString (JArr xs) =
     join (map (\<lambda>(x, r). if x = JNull then Converted [] else r) (zip xs (map ToString xs)))"
| "ToString (JObj ps) =
     (if js ''toString'' \<in> fst ` set ps then ThrowsTypeError else Converted (js ''[object Object]''))"

definition new_Error :: "jsval \<Rightarrow> error" where
  "new_Error message =
     (case ToString message of
        Converted s \<Rightarrow> Error s
      | ThrowsTypeError \<Rightarrow> TypeError
      | Unmodelled \<Rightarrow> ErrorOf message)"

record ApiResponse =
  a_intent :: jsstring
  a_confidence :: number
  a_response :: jsstring
  a_sources :: "jsstring list"
  a_action_invoked :: "jsstring option"
  a_timestamp :: jsstring

text \<open>
  \<open>x || d\<close>: the default replaces every falsy \<open>x\<close>, that is an absent field, the
  empty string, the numbers zero and NaN, and \<open>null\<close>; an array is always truthy.
\<close>

definition or_string :: "jsstring option \<Rightarrow> jsstring \<Rightarrow> jsstring" where
  "or_string x d = (case x of None \<Rightarrow> d | Some v \<Rightarrow> if v = [] then d else v)"

definition or_number :: "number option \<Rightarrow> number \<Rightarrow> number" where
  "or_number x d = (case x of None \<Rightarrow> d | Some v \<Rightarrow> if v = Finite 0 \<or> v = NaN then d else v)"

definition or_array :: "'a list option \<Rightarrow> 'a list \<Rightarrow> 'a list" where
  "or_array x d = (case x of None \<Rightarrow> d | Some v \<Rightarrow> v)"

definition or_null :: "jsstring option \<Rightarrow> jsstring option" where
  "or_null x = (case x of None \<Rightarrow> None | Some v \<Rightarrow> if v = [] then None else Some v)"

definition response_ok :: "int \<Rightarrow> bool" where
  "response_ok status = (200 \<le> status \<and> status \<le> 299)"

definition no_fields :: response_body where
  "no_fields = \<lparr>b_detail = None, b_intent = None, b_confidence = None, b_response = None,
                 b_sources = None, b_action_invoked = None, b_timestamp = None\<rparr>"

text \<open>
  \<open>errorData.detail\<close>, where \<open>errorData\<close> is the body or, when \<open>json()\<close>
  rejects, the empty object; \<open>None\<close> is \<open>undefined\<close>.  The body \<open>null\<close>, whose
  property cannot be read, is handled before.
\<close>

definition errorData_detail :: "body option \<Rightarrow> jsval option" where
  "errorData_detail errorData = (case errorData of Some (ObjectBody b) \<Rightarrow> b_detail b | _ \<Rightarrow> None)"

text \<open>\<open>t_now\<close> is the clock reading of \<open>new Date()\<close> for the default timestamp.\<close>

definition normalized :: "int \<Rightarrow> response_body \<Rightarrow> ApiResponse" where
  "normalized t_now data =
     \<lparr>a_intent = or_string (b_intent data) (js ''general_query''),
      a_confidence = or_number (b_confidence data) (Finite 0),
      a_response = or_string (b_response data) (js ''Sorry, I could not process your request.''),
      a_sources = or_array (b_sources data) [],
      a_action_invoked = or_null (b_action_invoked data),
      a_timestamp = or_string (b_timestamp data) (Date_toISOString t_now)\<rparr>"

definition sendQueryToAPI :: "int \<Rightarrow> fetch_result \<Rightarrow> error + ApiResponse" where
  "sendQueryToAPI t_now r =
     (case r of
        Rejected reason \<Rightarrow> Inl (FetchError reason)
      | Response status body \<Rightarrow>
          if \<not> response_ok status then
            (if body = Some NullBody then Inl TypeError
             else (case errorData_detail body of
                     None \<Rightarrow> Inl (Error (js ''API request failed: '' @ Number_toString status))
                   | Some detail \<Rightarrow>
                       if truthy detail then Inl (new_Error detail)
                       else Inl (Error (js ''API request failed: '' @ Number_toString status))))
          else
            (case body of
               None \<Rightarrow> Inl BodySyntaxError
             | Some NullBody \<Rightarrow> Inl TypeError
             | Some OtherBody \<Rightarrow> Inr (normalized t_now no_fields)
             | Some (ObjectBody data) \<Rightarrow> Inr (normalized t_now data)))"

section \<open>The send-message orchestration (\<open>App.sendMessage\<close>)\<close>

record app_state = chat_state +
  inputValue :: jsstring
  isLoading :: bool
  showToast :: "jsstring option"
  userId :: jsstring
  apiUrl :: jsstring

text \<open>The clock readings of one exchange, in the order the code takes them.\<close>

record clock =
  t_user_id :: int
  t_user_ts :: int
  t_api :: int
  t_asst_id :: int
  t_asst_ts :: int
  t_chat_id :: int
  t_chat_upd :: int

text \<open>
  The part of \<open>sendMessage\<close> before the \<open>await\<close>: \<open>None\<close> when the guard
  returns, otherwise the state after the optimistic update, the user message and the
  request that is issued.
\<close>

definition sendMessage_begin :: "clock \<Rightarrow> app_state \<Rightarrow> (app_state \<times> Message \<times> request) option" where
  "sendMessage_begin ck s =
     (if trim (inputValue s) = [] \<or> isLoading s then None
      else
        let userMessage = \<lparr>m_id = Number_toString (t_user_id ck), m_role = User,
                             m_content = inputValue s, m_intent = None, m_confidence = None,
                             m_sources = None, m_timestamp = ValidDate (t_user_ts ck)\<rparr>
        in Some ((addMessage userMessage s)\<lparr>inputValue := [], isLoading := True\<rparr>,
                 userMessage,
                 \<lparr>url = apiUrl s, user_id = userId s, query = inputValue s\<rparr>))"

text \<open>
  The part after the \<open>await\<close>, on the outcome of \<open>sendQueryToAPI\<close>.  \<open>cap\<close> is
  the state of the render in which \<open>sendMessage\<close> was invoked: \<open>updateChatHistory\<close>
  is that render's callback.
\<close>

definition sendMessage_resume ::
  "clock \<Rightarrow> app_state \<Rightarrow> Message \<Rightarrow> error + ApiResponse \<Rightarrow> app_state \<Rightarrow> app_state" where
  "sendMessage_resume ck cap userMessage outcome s =
     (case outcome of
        Inr data \<Rightarrow>
          let assistantMessage = \<lparr>m_id = Number_toString (t_asst_id ck + 1), m_role = Assistant,
                                    m_content = a_response data, m_intent = Some (a_intent data),
                                    m_confidence = Some (a_confidence data),
                                    m_sources = Some (a_sources data),
                                    m_timestamp = ValidDate (t_asst_ts ck)\<rparr>
          in (updateChatHistory cap (t_chat_id ck) (t_chat_upd ck) userMessage assistantMessage
                (addMessage assistantMessage s))\<lparr>isLoading := False\<rparr>
      | Inl e \<Rightarrow>
          s\<lparr>showToast := Some (js ''Failed to get response. Please check your connection.''),
            messages := filter (\<lambda>msg. m_id msg \<noteq> m_id userMessage) (messages s),
            isLoading := False\<rparr>)"

text \<open>
  One whole invocation with nothing else happening during the \<open>await\<close>; \<open>net\<close> is
  what the network does with a request.  The second component lists the requests issued.
\<close>

definition sendMessage :: "clock \<Rightarrow> (request \<Rightarrow> fetch_result) \<Rightarrow> app_state \<Rightarrow> app_state \<times> request list" where
  "sendMessage ck net s =
     (case sendMessage_begin ck s of
        None \<Rightarrow> (s, [])
      | Some (s1, userMessage, req) \<Rightarrow>
          (sendMessage_resume ck s userMessage (sendQueryToAPI (t_api ck) (net req)) s1, [req]))"

section \<open>Invariant of the session store\<close>

definition active_ok :: "'a chat_state_scheme \<Rightarrow> bool" where
  "active_ok s = (case currentChatId s of None \<Rightarrow> True
                  | Some c \<Rightarrow> c \<in> c_id ` set (chatHistories s))"

section \<open>Notions used to relate \<open>JSON.stringify\<close> and \<open>JSON.parse\<close>\<close>











section \<open>Concrete states and messages\<close>

text \<open>The inputs at which the theorems below are evaluated.\<close>

definition hello_message :: Message where
  "hello_message = \<lparr>m_id = js ''5'', m_role = User, m_content = js ''Hello'', m_intent = None,
                     m_confidence = None, m_sources = None, m_timestamp = ValidDate 5\<rparr>"

definition reply_message :: Message where
  "reply_message = \<lparr>m_id = js ''8'', m_role = Assistant, m_content = js ''Hi there!'',
                     m_intent = Some (js ''general_query''), m_confidence = Some (Finite 0),
                     m_sources = Some [], m_timestamp = ValidDate 7\<rparr>"

definition empty_store :: chat_state where
  "empty_store = \<lparr>chatHistories = [], currentChatId = None, messages = []\<rparr>"

definition hello_chat :: ChatHistory where
  "hello_chat = \<lparr>c_id = js ''9'', c_title = js ''Hello'',
                  c_messages = [hello_message, reply_message], c_lastUpdated = ValidDate 9\<rparr>"

definition one_chat_active :: chat_state where
  "one_chat_active = \<lparr>chatHistories = [hello_chat], currentChatId = Some (js ''9''),
                       messages = [hello_message, reply_message]\<rparr>"

text \<open>A store whose only chat has the empty string as its id, loaded as the active one.\<close>

definition unnamed_chat :: ChatHistory where
  "unnamed_chat = \<lparr>c_id = [], c_title = js ''Hello'', c_messages = [],
                    c_lastUpdated = ValidDate 9\<rparr>"

definition unnamed_chat_active :: chat_state where
  "unnamed_chat_active = \<lparr>chatHistories = [unnamed_chat], currentChatId = Some [],
                           messages = []\<rparr>"

definition idle_app :: app_state where
  "idle_app = \<lparr>chatHistories = [], currentChatId = None, messages = [],
                inputValue = js ''Hello'', isLoading = False, showToast = None,
                userId = js ''user_1'', apiUrl = js ''http://localhost:8000/api/ask''\<rparr>"

text \<open>
  An application whose buffer already holds the message with id \<open>8\<close>, while the
  clock reads 8 at the next submit.
\<close>

definition colliding_app :: app_state where
  "colliding_app = \<lparr>chatHistories = [], currentChatId = None, messages = [reply_message],
                     inputValue = js ''Hello'', isLoading = False, showToast = None,
                     userId = js ''user_1'', apiUrl = js ''http://localhost:8000/api/ask''\<rparr>"

definition busy_app :: app_state where
  "busy_app = idle_app\<lparr>isLoading := True\<rparr>"

definition clock_5 :: clock where
  "clock_5 = \<lparr>t_user_id = 5, t_user_ts = 5, t_api = 6, t_asst_id = 7, t_asst_ts = 7,
               t_chat_id = 9, t_chat_upd = 9\<rparr>"

definition clock_8 :: clock where
  "clock_8 = \<lparr>t_user_id = 8, t_user_ts = 8, t_api = 9, t_asst_id = 10, t_asst_ts = 10,
               t_chat_id = 11, t_chat_upd = 11\<rparr>"

definition network_down :: "request \<Rightarrow> fetch_result" where
  "network_down req = Rejected (js ''Failed to fetch'')"

definition hi_there_body :: response_body where
  "hi_there_body = no_fields\<lparr>b_response := Some (js ''Hi there!'')\<rparr>"

definition network_hi_there :: "request \<Rightarrow> fetch_result" where
  "network_hi_there req = Response 200 (Some (ObjectBody hi_there_body))"

definition empty_intent_body :: response_body where
  "empty_intent_body = no_fields\<lparr>b_intent := Some [], b_response := Some (js ''Hi there!'')\<rparr>"

definition empty_detail_body :: response_body where
  "empty_detail_body = no_fields\<lparr>b_detail := Some (JStr [])\<rparr>"

definition detail_body :: response_body where
  "detail_body = no_fields\<lparr>b_detail := Some (JStr (js ''Query too long''))\<rparr>"

text \<open>
  The body of a validation error, whose \<open>detail\<close> is a list of objects.
\<close>

definition validation_body :: response_body where
  "validation_body =
     no_fields\<lparr>b_detail := Some (JArr [JObj [(js ''loc'', JArr [JStr (js ''body''), JStr (js ''query'')]),
                                              (js ''msg'', JStr (js ''field required''))],
                                        JObj [(js ''msg'', JStr (js ''field required''))]])\<rparr>"


text \<open>A stored text that is not JSON.\<close>

definition corrupt_stored :: jsstring where
  "corrupt_stored = js ''[{''"

section \<open>Properties of the session store\<close>

lemma find_c_id: "find (\<lambda>c. c_id c = i) hs = Some chat \<Longrightarrow> i \<in> c_id ` set hs"
  by (induction hs) (auto split: if_splits)

lemma active_ok_startNewChat: "active_ok (startNewChat s)"
  by (simp add: active_ok_def startNewChat_def)

lemma active_ok_loadChat: "active_ok s \<Longrightarrow> active_ok (loadChat s i s)"
  by (auto simp: active_ok_def loadChat_def dest: find_c_id split: option.splits)

lemma active_ok_deleteChat: "active_ok s \<Longrightarrow> active_ok (deleteChat s i s)"
  by (auto simp: active_ok_def deleteChat_def startNewChat_def Let_def split: option.splits)

lemma active_ok_clearHistory: "active_ok (clearHistory s)"
  by (simp add: active_ok_def clearHistory_def)

lemma active_ok_addMessage: "active_ok s \<Longrightarrow> active_ok (addMessage m s)"
  by (simp add: active_ok_def addMessage_def split: option.splits)

lemma map_c_id_update:
  "map c_id (map (\<lambda>chat. if P chat then chat\<lparr>c_messages := ms, c_lastUpdated := d\<rparr> else chat) hs)
   = map c_id hs"
  by (induction hs) auto

lemma active_ok_updateChatHistory:
  assumes "active_ok s"
  shows "active_ok (updateChatHistory cap t_id t_upd u a s)"
proof (cases "truthy_id (currentChatId cap)")
  case True
  have "map c_id (chatHistories (updateChatHistory cap t_id t_upd u a s)) = map c_id (chatHistories s)"
    using True by (simp only: updateChatHistory_def Let_def if_True map_c_id_update) simp
  then have "c_id ` set (chatHistories (updateChatHistory cap t_id t_upd u a s))
             = c_id ` set (chatHistories s)"
    by (metis set_map)
  moreover have "currentChatId (updateChatHistory cap t_id t_upd u a s) = currentChatId s"
    using True by (simp add: updateChatHistory_def Let_def)
  ultimately show ?thesis
    using assms by (simp add: active_ok_def split: option.splits)
next
  case False
  then show ?thesis
    by (simp add: active_ok_def updateChatHistory_def Let_def)
qed

lemma active_ok_setMessages: "active_ok s \<Longrightarrow> active_ok (s\<lparr>messages := ms\<rparr>)"
  by (simp add: active_ok_def split: option.splits)

lemma reachable_active_ok: "reachable s \<Longrightarrow> active_ok s"
proof (induction rule: reachable.induct)
  case (r_init hs)
  show ?case by (simp add: active_ok_def)
qed (simp_all add: active_ok_startNewChat active_ok_loadChat active_ok_deleteChat
       active_ok_clearHistory active_ok_addMessage active_ok_updateChatHistory
       active_ok_setMessages)

lemmas js_eval = js_def Number_toString_def nat_digits.simps digit_char_def

subsection \<open>Committing an exchange with no active chat\<close>

text \<open>
  Claim C2.  \<open>updateChatHistory\<close> reads \<open>currentChatId\<close> and \<open>messages\<close> from the
  render that created the callback and applies its updaters to the state of the moment.
  Whenever the render it was created in had no active chat (\<open>currentChatId\<close> is
  \<open>null\<close>), whatever the state of the moment is, it puts exactly one new ChatHistory at
  the front of the histories: its title is the first 50 code units of the user message's
  content, its messages are that render's buffer followed by the user and the assistant
  message, and its id becomes the active-chat reference.
\<close>

theorem updateChatHistory_creates_chat:
  assumes "currentChatId cap = None"
  shows "chatHistories (updateChatHistory cap t_id t_upd userMessage assistantMessage s)
           = \<lparr>c_id = Number_toString t_id,
              c_title = take 50 (m_content userMessage),
              c_messages = messages cap @ [userMessage, assistantMessage],
              c_lastUpdated = ValidDate t_upd\<rparr> # chatHistories s
         \<and> length (chatHistories (updateChatHistory cap t_id t_upd userMessage assistantMessage s))
             = length (chatHistories s) + 1
         \<and> currentChatId (updateChatHistory cap t_id t_upd userMessage assistantMessage s)
             = Some (Number_toString t_id)"
  using assms by (simp add: updateChatHistory_def truthy_id_def Let_def)

text \<open>
  The call of \<open>sendMessage\<close>: the callback of the render at submit time, applied to the
  state in which both messages have been added to the buffer.
\<close>

theorem updateChatHistory_creates_chat_witness:
  "currentChatId empty_store = None
   \<and> chatHistories (updateChatHistory empty_store 9 9 hello_message reply_message
        (addMessage reply_message (addMessage hello_message empty_store)))
       = [hello_chat]
   \<and> currentChatId (updateChatHistory empty_store 9 9 hello_message reply_message
        (addMessage reply_message (addMessage hello_message empty_store)))
       = Some (js ''9'')
   \<and> addMessage reply_message (addMessage hello_message empty_store) \<noteq> empty_store"
  using updateChatHistory_creates_chat [where cap = empty_store and t_id = 9 and t_upd = 9
      and userMessage = hello_message and assistantMessage = reply_message
      and s = "addMessage reply_message (addMessage hello_message empty_store)"]
  by (simp add: empty_store_def hello_chat_def hello_message_def addMessage_def js_eval)

subsection \<open>Committing an exchange to the active chat\<close>

text \<open>
  Claim C5, as amended.  Whenever the render that created the callback had a non-empty
  id as its active-chat reference, whatever the state of the moment is,
  \<open>updateChatHistory\<close> keeps the size of the histories, leaves every entry with another
  id as it is, and changes in the entries with that id only \<open>messages\<close> (to that
  render's buffer followed by the two messages) and \<open>lastUpdated\<close>; the reference and
  the buffer of the state of the moment stay as they are.
\<close>

theorem updateChatHistory_frame:
  assumes "currentChatId cap = Some c" and "c \<noteq> []"
  shows "length (chatHistories (updateChatHistory cap t_id t_upd userMessage assistantMessage s))
           = length (chatHistories s)
         \<and> (\<forall>i < length (chatHistories s).
               chatHistories (updateChatHistory cap t_id t_upd userMessage assistantMessage s) ! i
               = (if c_id (chatHistories s ! i) = c
                  then (chatHistories s ! i)\<lparr>c_messages := messages cap @ [userMessage, assistantMessage],
                                            c_lastUpdated := ValidDate t_upd\<rparr>
                  else chatHistories s ! i))
         \<and> currentChatId (updateChatHistory cap t_id t_upd userMessage assistantMessage s)
             = currentChatId s
         \<and> messages (updateChatHistory cap t_id t_upd userMessage assistantMessage s) = messages s"
  using assms by (simp add: updateChatHistory_def truthy_id_def Let_def)

theorem updateChatHistory_frame_witness:
  "currentChatId one_chat_active = Some (js ''9'') \<and> js ''9'' \<noteq> []
   \<and> chatHistories (updateChatHistory one_chat_active 20 21 hello_message reply_message
        (addMessage reply_message (addMessage hello_message one_chat_active)))
       = [hello_chat\<lparr>c_messages := [hello_message, reply_message, hello_message, reply_message],
                     c_lastUpdated := ValidDate 21\<rparr>]
   \<and> messages (updateChatHistory one_chat_active 20 21 hello_message reply_message
        (addMessage reply_message (addMessage hello_message one_chat_active)))
       = [hello_message, reply_message, hello_message, reply_message]
   \<and> addMessage reply_message (addMessage hello_message one_chat_active) \<noteq> one_chat_active"
  using updateChatHistory_frame [where cap = one_chat_active and c = "js ''9''" and t_id = 20
      and t_upd = 21 and userMessage = hello_message and assistantMessage = reply_message
      and s = "addMessage reply_message (addMessage hello_message one_chat_active)"]
  by (simp add: one_chat_active_def hello_chat_def addMessage_def js_eval updateChatHistory_def
        truthy_id_def Let_def)

text \<open>
  As stated for every active-chat reference that points to a chat, C5 fails where that
  reference is the empty string: \<open>if (currentChatId)\<close> is false there and a second
  ChatHistory is created.
\<close>

theorem updateChatHistory_frame_counterexample:
  "currentChatId unnamed_chat_active = Some (c_id unnamed_chat)
   \<and> unnamed_chat \<in> set (chatHistories unnamed_chat_active)
   \<and> length (chatHistories (updateChatHistory unnamed_chat_active 9 9 hello_message reply_message
                 (addMessage reply_message (addMessage hello_message unnamed_chat_active)))) = 2
   \<and> length (chatHistories (addMessage reply_message (addMessage hello_message
                 unnamed_chat_active))) = 1"
  by (simp add: unnamed_chat_active_def unnamed_chat_def addMessage_def updateChatHistory_def
        truthy_id_def Let_def)

subsection \<open>Deleting a chat\<close>

text \<open>
  Claim C7.  \<open>deleteChat(id)\<close> removes from the histories exactly the entries with
  that id; if that id was the active chat the buffer becomes empty and the reference is
  cleared, otherwise both stay; and if no chat has that id nothing changes at all.  The
  last part is about the states the store can be in: there the active reference points
  to a chat (\<open>active_ok\<close>, which \<open>reachable_active_ok\<close> shows of every reachable
  state), so it is not an id that no chat has.
\<close>

theorem deleteChat_removes:
  "chatHistories (deleteChat s chatId s) = filter (\<lambda>chat. c_id chat \<noteq> chatId) (chatHistories s)
   \<and> (currentChatId s = Some chatId \<longrightarrow>
        messages (deleteChat s chatId s) = [] \<and> currentChatId (deleteChat s chatId s) = None)
   \<and> (currentChatId s \<noteq> Some chatId \<longrightarrow>
        messages (deleteChat s chatId s) = messages s
        \<and> currentChatId (deleteChat s chatId s) = currentChatId s)
   \<and> (active_ok s \<and> chatId \<notin> c_id ` set (chatHistories s) \<longrightarrow> deleteChat s chatId s = s)"
proof -
  have "filter (\<lambda>chat. c_id chat \<noteq> chatId) (chatHistories s) = chatHistories s"
    if "chatId \<notin> c_id ` set (chatHistories s)"
    using that by (induction "chatHistories s") (auto simp: filter_id_conv)
  moreover have "currentChatId s \<noteq> Some chatId"
    if "active_ok s" "chatId \<notin> c_id ` set (chatHistories s)"
    using that by (auto simp: active_ok_def split: option.splits)
  ultimately show ?thesis
    by (auto simp: deleteChat_def startNewChat_def Let_def)
qed

theorem deleteChat_removes_witness:
  "currentChatId one_chat_active = Some (js ''9'')
   \<and> deleteChat one_chat_active (js ''9'') one_chat_active = empty_store
   \<and> active_ok one_chat_active \<and> js ''7'' \<notin> c_id ` set (chatHistories one_chat_active)
   \<and> deleteChat one_chat_active (js ''7'') one_chat_active = one_chat_active"
  using deleteChat_removes [of one_chat_active "js ''9''"] deleteChat_removes [of one_chat_active "js ''7''"]
  by (simp add: one_chat_active_def empty_store_def hello_chat_def active_ok_def js_eval deleteChat_def startNewChat_def Let_def)

subsection \<open>The active reference is never dangling\<close>

text \<open>
  Claim C10.  In every state reached from the initial state by any sequence of
  \<open>startNewChat\<close>, \<open>loadChat\<close>, \<open>deleteChat\<close>, \<open>clearHistory\<close>,
  \<open>addMessage\<close> and \<open>updateChatHistory\<close> (and of \<open>setMessages\<close>), a
  non-null \<open>currentChatId\<close> is the id of a ChatHistory in the histories.
\<close>

theorem active_reference_never_dangling:
  assumes "reachable s" and "currentChatId s = Some c"
  shows "\<exists>chat \<in> set (chatHistories s). c_id chat = c"
  using reachable_active_ok [OF assms(1)] assms(2) by (auto simp: active_ok_def)

theorem active_reference_never_dangling_witness:
  "reachable (updateChatHistory empty_store 9 9 hello_message reply_message empty_store)
   \<and> currentChatId (updateChatHistory empty_store 9 9 hello_message reply_message empty_store)
       = Some (js ''9'')
   \<and> (\<exists>chat \<in> set (chatHistories (updateChatHistory empty_store 9 9 hello_message reply_message
                                         empty_store)). c_id chat = js ''9'')"
proof -
  have r: "reachable (updateChatHistory empty_store 9 9 hello_message reply_message empty_store)"
    unfolding empty_store_def by (rule r_updateChatHistory [OF r_init])
  have c: "currentChatId (updateChatHistory empty_store 9 9 hello_message reply_message empty_store)
       = Some (js ''9'')"
    by (simp add: empty_store_def updateChatHistory_def truthy_id_def Let_def js_eval)
  show ?thesis
    using r c active_reference_never_dangling [OF r c] by simp
qed

section \<open>Properties of the query client\<close>

lemmas trim_eval = trim_def is_js_space_def

lemmas or_defs = or_string_def or_number_def or_array_def or_null_def

lemma replicate_numeral: "replicate (numeral k) x = x # replicate (pred_numeral k) x"
  by (simp add: numeral_eq_Suc)

lemma civil_epoch: "civil_from_days 0 = (1970, 1, 1)"
  by code_simp

lemma toISOString_6: "Date_toISOString 6 = js ''1970-01-01T00:00:00.006Z''"
  by (simp add: Date_toISOString_def civil_epoch iso_string_def iso_year_def pad_def
        nat_digits.simps js_def digit_char_def replicate_numeral)

subsection \<open>Defaults of a successful response\<close>

text \<open>
  Claim C4, as amended.  For every response with a success status and a JSON object
  body, \<open>sendQueryToAPI\<close> returns an object in which every field that is missing
  or falsy in the body has its default (\<open>general_query\<close>, 0, the apology text, the
  empty list, \<open>null\<close>, the current instant as an ISO string), and every field
  present with a truthy value is passed through.
\<close>

theorem sendQueryToAPI_defaults:
  assumes "response_ok status"
  shows "\<exists>r. sendQueryToAPI t_now (Response status (Some (ObjectBody data))) = Inr r
    \<and> (b_intent data = None \<or> b_intent data = Some [] \<longrightarrow> a_intent r = js ''general_query'')
    \<and> (\<forall>v. b_intent data = Some v \<and> v \<noteq> [] \<longrightarrow> a_intent r = v)
    \<and> (b_confidence data = None \<or> b_confidence data = Some NaN \<longrightarrow> a_confidence r = Finite 0)
    \<and> (\<forall>v. b_confidence data = Some v \<and> v \<noteq> NaN \<longrightarrow> a_confidence r = v)
    \<and> (b_response data = None \<or> b_response data = Some [] \<longrightarrow>
         a_response r = js ''Sorry, I could not process your request.'')
    \<and> (\<forall>v. b_response data = Some v \<and> v \<noteq> [] \<longrightarrow> a_response r = v)
    \<and> (b_sources data = None \<longrightarrow> a_sources r = [])
    \<and> (\<forall>v. b_sources data = Some v \<longrightarrow> a_sources r = v)
    \<and> (b_action_invoked data = None \<or> b_action_invoked data = Some [] \<longrightarrow> a_action_invoked r = None)
    \<and> (\<forall>v. b_action_invoked data = Some v \<and> v \<noteq> [] \<longrightarrow> a_action_invoked r = Some v)
    \<and> (b_timestamp data = None \<or> b_timestamp data = Some [] \<longrightarrow>
         a_timestamp r = Date_toISOString t_now)
    \<and> (\<forall>v. b_timestamp data = Some v \<and> v \<noteq> [] \<longrightarrow> a_timestamp r = v)"
  using assms by (auto simp: sendQueryToAPI_def normalized_def or_defs)

theorem sendQueryToAPI_defaults_witness:
  "response_ok 200
   \<and> sendQueryToAPI 6 (Response 200 (Some (ObjectBody hi_there_body)))
       = Inr \<lparr>a_intent = js ''general_query'', a_confidence = Finite 0,
              a_response = js ''Hi there!'', a_sources = [], a_action_invoked = None,
              a_timestamp = js ''1970-01-01T00:00:00.006Z''\<rparr>"
  using sendQueryToAPI_defaults [of 200 6 hi_there_body]
  by (simp add: response_ok_def toISOString_6)
     (simp add: sendQueryToAPI_def normalized_def response_ok_def hi_there_body_def no_fields_def
        or_defs toISOString_6 js_def)

text \<open>
  As stated (every field present in the response is passed through), C4 fails on a body
  whose \<open>intent\<close> is present and is the empty string: \<open>||\<close> replaces it by the
  default.
\<close>

theorem sendQueryToAPI_defaults_counterexample:
  "response_ok 200 \<and> b_intent empty_intent_body = Some []
   \<and> sendQueryToAPI 6 (Response 200 (Some (ObjectBody empty_intent_body)))
       = Inr \<lparr>a_intent = js ''general_query'', a_confidence = Finite 0,
              a_response = js ''Hi there!'', a_sources = [], a_action_invoked = None,
              a_timestamp = js ''1970-01-01T00:00:00.006Z''\<rparr>"
  by (simp add: sendQueryToAPI_def normalized_def response_ok_def empty_intent_body_def
        no_fields_def or_defs toISOString_6 js_def)

subsection \<open>A response with a non-success status\<close>

text \<open>
  The body \<open>null\<close>: \<open>errorData.detail\<close> and \<open>data.intent\<close> read a property of
  \<open>null\<close>, and the client throws a TypeError whatever the status is.
\<close>

lemma sendQueryToAPI_null_body: "sendQueryToAPI t_now (Response status (Some NullBody)) = Inl TypeError"
  by (simp add: sendQueryToAPI_def)

lemma validation_detail_string:
  "ToString (JArr [JObj [(js ''loc'', JArr [JStr (js ''body''), JStr (js ''query'')]),
                         (js ''msg'', JStr (js ''field required''))],
                   JObj [(js ''msg'', JStr (js ''field required''))]])
   = Converted (js ''[object Object],[object Object]'')"
  by (simp add: join2_def js_def)

text \<open>
  Claim C6, as amended.  For every response with a non-success status whose body is
  not \<open>null\<close>, \<open>sendQueryToAPI\<close> throws.  When the body is an object whose
  \<open>detail\<close> is a non-empty string, it throws an \<open>Error\<close> with that string as its
  message; when \<open>detail\<close> is another truthy value, the \<open>Error\<close> has the string
  conversion of that value as its message (and where that conversion throws, its
  TypeError is what is thrown); otherwise (no \<open>detail\<close>, a falsy one such as the empty
  string, a body that is no object or is not JSON) it throws an \<open>Error\<close> with the
  generic message that ends with the status code.  The caller never gets a partial
  result: the outcome is an error or, on the success path, an \<open>ApiResponse\<close> with
  every field.
\<close>

theorem sendQueryToAPI_non_success:
  assumes "\<not> response_ok status" and "body \<noteq> Some NullBody"
  shows "(\<forall>b d. body = Some (ObjectBody b) \<and> b_detail b = Some (JStr d) \<and> d \<noteq> [] \<longrightarrow>
            sendQueryToAPI t_now (Response status body) = Inl (Error d))
       \<and> (\<forall>b v s. body = Some (ObjectBody b) \<and> b_detail b = Some v \<and> truthy v
                  \<and> ToString v = Converted s \<longrightarrow>
            sendQueryToAPI t_now (Response status body) = Inl (Error s))
       \<and> (\<forall>b v. body = Some (ObjectBody b) \<and> b_detail b = Some v \<and> truthy v
                \<and> ToString v = ThrowsTypeError \<longrightarrow>
            sendQueryToAPI t_now (Response status body) = Inl TypeError)
       \<and> (body = None \<or> body = Some OtherBody
          \<or> (\<exists>b. body = Some (ObjectBody b)
                 \<and> (b_detail b = None \<or> (\<exists>v. b_detail b = Some v \<and> \<not> truthy v))) \<longrightarrow>
            sendQueryToAPI t_now (Response status body)
            = Inl (Error (js ''API request failed: '' @ Number_toString status)))
       \<and> (\<exists>e. sendQueryToAPI t_now (Response status body) = Inl e)"
  using assms
  by (auto simp: sendQueryToAPI_def errorData_detail_def new_Error_def truthy_def
           split: option.splits body.splits)

theorem sendQueryToAPI_non_success_witness:
  "\<not> response_ok 500 \<and> Some (ObjectBody detail_body) \<noteq> Some NullBody
   \<and> sendQueryToAPI 6 (Response 500 (Some (ObjectBody detail_body))) = Inl (Error (js ''Query too long''))
   \<and> \<not> response_ok 422 \<and> Some (ObjectBody validation_body) \<noteq> Some NullBody
   \<and> sendQueryToAPI 6 (Response 422 (Some (ObjectBody validation_body)))
       = Inl (Error (js ''[object Object],[object Object]''))
   \<and> None \<noteq> Some NullBody
   \<and> sendQueryToAPI 6 (Response 500 None) = Inl (Error (js ''API request failed: 500''))"
  using sendQueryToAPI_non_success [of 500 "Some (ObjectBody detail_body)" 6]
    sendQueryToAPI_non_success [of 422 "Some (ObjectBody validation_body)" 6]
    sendQueryToAPI_non_success [of 500 None 6]
    validation_detail_string
  by (simp add: response_ok_def detail_body_def validation_body_def no_fields_def truthy_def js_eval)

text \<open>
  As stated (the message is the \<open>detail\<close> field whenever the body contains one), C6
  fails on an error body whose \<open>detail\<close> is the empty string: the message is the
  generic one.
\<close>

theorem sendQueryToAPI_non_success_counterexample:
  "\<not> response_ok 500 \<and> b_detail empty_detail_body = Some (JStr [])
   \<and> sendQueryToAPI 6 (Response 500 (Some (ObjectBody empty_detail_body)))
       = Inl (Error (js ''API request failed: 500''))
   \<and> js ''API request failed: 500'' \<noteq> []"
  by (simp add: sendQueryToAPI_def errorData_detail_def truthy_def response_ok_def
        empty_detail_body_def no_fields_def js_eval)

section \<open>Properties of the send-message orchestration\<close>

lemma network_down_fails: "sendQueryToAPI t (network_down req) = Inl (FetchError (js ''Failed to fetch''))"
  by (simp add: sendQueryToAPI_def network_down_def)

subsection \<open>The guard\<close>

text \<open>
  Claim C9.  When the busy flag is set or the input trims to the empty string,
  \<open>sendMessage\<close> changes no state and issues no request.  A submit that passes the
  guard sets the busy flag before it awaits, so a second submit in the state it leaves
  is such a no-op: it adds no second user message and issues no second request.
\<close>

theorem sendMessage_guard:
  "(isLoading s \<or> trim (inputValue s) = [] \<longrightarrow> sendMessage ck net s = (s, []))
   \<and> (sendMessage_begin ck s = Some (s1, userMessage, req) \<longrightarrow>
        isLoading s1 \<and> sendMessage ck' net' s1 = (s1, []))"
  by (auto simp: sendMessage_def sendMessage_begin_def Let_def split: if_splits)

theorem sendMessage_guard_witness:
  "isLoading busy_app \<and> sendMessage clock_5 network_hi_there busy_app = (busy_app, [])
   \<and> sendMessage_begin clock_5 idle_app
       = Some (busy_app\<lparr>messages := [hello_message], inputValue := []\<rparr>, hello_message,
               \<lparr>url = js ''http://localhost:8000/api/ask'', user_id = js ''user_1'', query = js ''Hello''\<rparr>)
   \<and> sendMessage clock_8 network_hi_there (busy_app\<lparr>messages := [hello_message], inputValue := []\<rparr>)
       = (busy_app\<lparr>messages := [hello_message], inputValue := []\<rparr>, [])"
proof -
  have b: "sendMessage_begin clock_5 idle_app
       = Some (busy_app\<lparr>messages := [hello_message], inputValue := []\<rparr>, hello_message,
               \<lparr>url = js ''http://localhost:8000/api/ask'', user_id = js ''user_1'', query = js ''Hello''\<rparr>)"
    by (simp add: sendMessage_begin_def idle_app_def busy_app_def trim_eval js_def clock_5_def
          hello_message_def addMessage_def Let_def Number_toString_def nat_digits.simps digit_char_def)
  have l: "isLoading busy_app" by (simp add: busy_app_def)
  show ?thesis
    using l b sendMessage_guard [where s = busy_app and ck = clock_5 and net = network_hi_there]
      sendMessage_guard [where ck = clock_5 and s = idle_app
         and ?s1.0 = "busy_app\<lparr>messages := [hello_message], inputValue := []\<rparr>"
         and userMessage = hello_message
         and req = "\<lparr>url = js ''http://localhost:8000/api/ask'', user_id = js ''user_1'', query = js ''Hello''\<rparr>"
         and ck' = clock_8 and net' = network_hi_there]
    by simp
qed

subsection \<open>Rollback on failure\<close>

text \<open>
  Claim C1, as amended.  If the remote call of \<open>sendMessage\<close> throws, and no
  message already in the buffer has the id of the new user message, then after the
  failure branch the buffer is what it was before the user message was added, and the
  histories and the active-chat reference are unchanged.
\<close>

theorem sendMessage_failure_rollback:
  assumes "\<not> isLoading s" and "trim (inputValue s) \<noteq> []"
    and "sendQueryToAPI (t_api ck)
           (net \<lparr>url = apiUrl s, user_id = userId s, query = inputValue s\<rparr>) = Inl e"
    and "Number_toString (t_user_id ck) \<notin> m_id ` set (messages s)"
  shows "messages (fst (sendMessage ck net s)) = messages s
         \<and> chatHistories (fst (sendMessage ck net s)) = chatHistories s
         \<and> currentChatId (fst (sendMessage ck net s)) = currentChatId s"
proof -
  have "filter (\<lambda>msg. m_id msg \<noteq> Number_toString (t_user_id ck)) (messages s) = messages s"
    using assms(4) by (force simp: filter_id_conv)
  then show ?thesis
    using assms(1-3)
    by (simp add: sendMessage_def sendMessage_begin_def sendMessage_resume_def addMessage_def Let_def)
qed

theorem sendMessage_failure_rollback_witness:
  "\<not> isLoading idle_app \<and> trim (inputValue idle_app) \<noteq> []
   \<and> sendQueryToAPI (t_api clock_5)
        (network_down \<lparr>url = apiUrl idle_app, user_id = userId idle_app, query = inputValue idle_app\<rparr>)
      = Inl (FetchError (js ''Failed to fetch''))
   \<and> Number_toString (t_user_id clock_5) \<notin> m_id ` set (messages idle_app)
   \<and> messages (fst (sendMessage clock_5 network_down idle_app)) = []
   \<and> chatHistories (fst (sendMessage clock_5 network_down idle_app)) = []
   \<and> currentChatId (fst (sendMessage clock_5 network_down idle_app)) = None"
proof -
  have 1: "\<not> isLoading idle_app" and 2: "trim (inputValue idle_app) \<noteq> []"
    and 4: "Number_toString (t_user_id clock_5) \<notin> m_id ` set (messages idle_app)"
    by (simp_all add: idle_app_def trim_eval js_def)
  note 3 = network_down_fails [of "t_api clock_5" "\<lparr>url = apiUrl idle_app, user_id = userId idle_app, query = inputValue idle_app\<rparr>"]
  show ?thesis
    using 1 2 3 4 sendMessage_failure_rollback [where s = idle_app and ck = clock_5
        and net = network_down and e = "FetchError (js ''Failed to fetch'')"]
    by (simp add: idle_app_def)
qed

text \<open>
  As stated for every buffer, C1 fails on a buffer that holds a message whose id is the
  one the new user message gets from the clock: the rollback filters by id and removes
  that message too.
\<close>

theorem sendMessage_failure_rollback_counterexample:
  "\<not> isLoading colliding_app \<and> trim (inputValue colliding_app) \<noteq> []
   \<and> sendQueryToAPI (t_api clock_8)
        (network_down \<lparr>url = apiUrl colliding_app, user_id = userId colliding_app,
                       query = inputValue colliding_app\<rparr>)
      = Inl (FetchError (js ''Failed to fetch''))
   \<and> messages colliding_app = [reply_message]
   \<and> messages (fst (sendMessage clock_8 network_down colliding_app)) = []"
  by (simp add: network_down_fails)
     (simp add: colliding_app_def trim_eval js_def sendMessage_def sendMessage_begin_def
        sendMessage_resume_def addMessage_def Let_def network_down_fails clock_8_def
        reply_message_def js_eval)

subsection \<open>A first exchange\<close>

text \<open>
  With empty histories, the user sends \<open>Hello\<close> and the endpoint answers with only
  \<open>response: Hi there!\<close>: one request is issued, the assistant message has the
  default intent, confidence and sources, and exactly one ChatHistory, titled
  \<open>Hello\<close>, exists and is active.
\<close>

lemma first_exchange:
  "sendMessage clock_5 network_hi_there idle_app
   = (\<lparr>chatHistories = [hello_chat], currentChatId = Some (js ''9''),
       messages = [hello_message, reply_message], inputValue = [], isLoading = False,
       showToast = None, userId = js ''user_1'', apiUrl = js ''http://localhost:8000/api/ask''\<rparr>,
      [\<lparr>url = js ''http://localhost:8000/api/ask'', user_id = js ''user_1'', query = js ''Hello''\<rparr>])"
proof -
  have api: "sendQueryToAPI 6 (Response 200 (Some (ObjectBody hi_there_body)))
       = Inr \<lparr>a_intent = js ''general_query'', a_confidence = Finite 0,
              a_response = js ''Hi there!'', a_sources = [], a_action_invoked = None,
              a_timestamp = js ''1970-01-01T00:00:00.006Z''\<rparr>"
    by (simp add: sendQueryToAPI_def normalized_def response_ok_def hi_there_body_def
          no_fields_def or_defs toISOString_6 js_def)
  show ?thesis
    by (simp add: sendMessage_def sendMessage_begin_def sendMessage_resume_def idle_app_def
          clock_5_def network_hi_there_def api trim_eval addMessage_def updateChatHistory_def
          truthy_id_def Let_def hello_chat_def hello_message_def reply_message_def
          Number_toString_def nat_digits.simps digit_char_def js_def)
qed

section \<open>Properties of the dates\<close>

subsection \<open>The calendar\<close>
































section \<open>Properties of \<open>JSON.stringify\<close>\<close>

subsection \<open>Strings\<close>









subsection \<open>Numbers\<close>

lemma pow10_powi: "pow10 e = 10 powi e"
  by (auto simp: pow10_def power_int_def inverse_eq_divide power_divide)














lemma pow10_nat: "pow10 (int z) = of_nat (10 ^ z)"
  by (simp add: pow10_def)

lemma pow10_add: "pow10 (a + b) = pow10 a * pow10 b"
  by (simp add: pow10_powi power_int_add)

lemma pow10_diff_nat: "of_nat (10 ^ z) * pow10 (a - int z) = pow10 a"
  using pow10_add [of "int z" "a - int z"] by (simp add: pow10_nat)










subsection \<open>Texts and tokens\<close>
















subsection \<open>Tokens and values\<close>







subsection \<open>The printers at some values\<close>

lemma Number_toString_rat_examples:
  "Number_toString_rat (19 / 20) = Some (js ''0.95'')"
  "Number_toString_rat (- 25 / 2) = Some (js ''-12.5'')"
  "Number_toString_rat 1000000000000000000000 = Some (js ''1e+21'')"
  "Number_toString_rat (1 / 10000000) = Some (js ''1e-7'')"
  "Number_toString_rat 1200 = Some (js ''1200'')"
  "Number_toString_rat (3 / 1000000) = Some (js ''0.000003'')"
proof -
  have q: "quotient_of (19 / 20) = (19, 20)" "quotient_of (25 / 2) = (25, 2)"
    "quotient_of (1 / 10000000) = (1, 10000000)" "quotient_of (3 / 1000000) = (3, 1000000)"
    by code_simp+
  have f: "factor_count 2 20 = 2" "factor_count 5 20 = 1" "factor_count 2 2 = 1"
    "factor_count 5 2 = 0" "factor_count 2 (Suc 0) = 0" "factor_count 5 (Suc 0) = 0"
    "factor_count 2 10000000 = 7" "factor_count 5 10000000 = 7"
    "factor_count 2 1000000 = 6" "factor_count 5 1000000 = 6"
    by (simp_all add: factor_count.simps)
  have s: "strip_zeros 95 (- 2) = (95, - 2)" "strip_zeros 125 (- 1) = (125, - 1)"
    "strip_zeros 1000000000000000000000 0 = (1, 21)" "strip_zeros (Suc 0) (- 7) = (Suc 0, - 7)"
    "strip_zeros 1200 0 = (12, 2)" "strip_zeros 3 (- 6) = (3, - 6)"
    by (simp_all add: strip_zeros.simps)
  have d: "decimal_of (19 / 20) = Some (95, - 2)" "decimal_of (25 / 2) = Some (125, - 1)"
    "decimal_of 1000000000000000000000 = Some (1, 21)" "decimal_of (1 / 10000000) = Some (1, - 7)"
    "decimal_of 1200 = Some (12, 2)" "decimal_of (3 / 1000000) = Some (3, - 6)"
    by (simp_all add: decimal_of_def q f s Let_def)
  show "Number_toString_rat (19 / 20) = Some (js ''0.95'')"
    "Number_toString_rat (- 25 / 2) = Some (js ''-12.5'')"
    "Number_toString_rat 1000000000000000000000 = Some (js ''1e+21'')"
    "Number_toString_rat (1 / 10000000) = Some (js ''1e-7'')"
    "Number_toString_rat 1200 = Some (js ''1200'')"
    "Number_toString_rat (3 / 1000000) = Some (js ''0.000003'')"
    by (simp_all add: Number_toString_rat_def d Number_format_def format_digits_def
          nat_digits.simps digit_char_def js_def Let_def replicate_numeral)
qed

lemma QuoteJSONString_example:
  "QuoteJSONString [0x61, 0x22, 0xA, 0x1F, 0xD800, 0xD83D, 0xDE00]
   = [0x22, 0x61, 0x5C, 0x22, 0x5C, 0x6E, 0x5C, 0x75, 0x30, 0x30, 0x31, 0x66,
      0x5C, 0x75, 0x64, 0x38, 0x30, 0x30, 0xD83D, 0xDE00, 0x22]"
  by (simp add: QuoteJSONString_def quote_unit_def unicode_escape_def hex_digit_def is_lead_def
        is_trail_def)




section \<open>Properties of the stored histories\<close>

lemmas json_eval = JSON_parse_def js_def lex_token_def is_json_ws_def wants_value_def is_digit_def
  lex_number_def lex_unsigned_def lex_fraction_def lex_exponent_def digits_val_def digit_val_def pow10_def


lemma corrupt_parse: "JSON_parse corrupt_stored = None"
  by (simp add: corrupt_stored_def json_eval)

subsection \<open>A missing or corrupt store\<close>

text \<open>
  Claim C3, as amended.  The initial deserialization of the histories yields the empty
  collection when the stored value is missing or is the empty string; when the stored
  value is not valid JSON, \<open>JSON.parse\<close> throws its SyntaxError out of the state
  initializer.
\<close>

theorem useChat_initial_missing_or_corrupt:
  "useChat_initial None = Inr (JArr [])
   \<and> useChat_initial (Some []) = Inr (JArr [])
   \<and> (text \<noteq> [] \<and> JSON_parse text = None \<longrightarrow> useChat_initial (Some text) = Inl SyntaxError)"
  by (simp add: useChat_initial_def JSON_parse_reviver_def)

theorem useChat_initial_missing_or_corrupt_witness:
  "corrupt_stored \<noteq> [] \<and> JSON_parse corrupt_stored = None
   \<and> useChat_initial (Some corrupt_stored) = Inl SyntaxError"
  using useChat_initial_missing_or_corrupt [of corrupt_stored] corrupt_parse
  by (simp add: corrupt_stored_def js_def)

text \<open>
  As stated (a corrupt store yields the empty collection), C3 fails on the stored text
  \<open>[{\<close>: the initializer throws.
\<close>

theorem useChat_initial_corrupt_counterexample:
  "JSON_parse corrupt_stored = None \<and> useChat_initial (Some corrupt_stored) = Inl SyntaxError
   \<and> useChat_initial (Some corrupt_stored) \<noteq> Inr (JArr [])"
  using corrupt_parse by (simp add: useChat_initial_def JSON_parse_reviver_def corrupt_stored_def js_def)

subsection \<open>Persisting and restoring\<close>
































end
